theory Spec2Isabelle
  imports Main "HOL-Library.Sublist"
begin

section \<open>Python strings\<close>

text \<open>
  A Python \<open>str\<close> is a sequence of Unicode code points; slicing, \<open>len\<close>, \<open>strip\<close> and
  \<open>replace\<close> all count code points.  The model is a list of code point numbers.  The
  literals of the source are written with \<open>str\<close> where they are ASCII, and with the
  number of the code point where they are not (\<open>233\<close> is U+00E9, \<open>201\<close> is U+00C9).
\<close>

type_synonym pystr = "nat list"

definition str :: "string \<Rightarrow> pystr" where
  "str s = map of_char s"

text \<open>The code points \<open>str.strip()\<close> removes (CPython's \<open>_PyUnicode_IsWhitespace\<close>).\<close>

definition py_isspace :: "nat \<Rightarrow> bool" where
  "py_isspace c =
     ((9 \<le> c \<and> c \<le> 13) \<or> (28 \<le> c \<and> c \<le> 32) \<or> c = 133 \<or> c = 160 \<or> c = 5760
      \<or> (8192 \<le> c \<and> c \<le> 8202) \<or> c = 8232 \<or> c = 8233 \<or> c = 8239 \<or> c = 8287
      \<or> c = 12288)"

definition py_lstrip :: "pystr \<Rightarrow> pystr" where
  "py_lstrip s = dropWhile py_isspace s"

definition py_rstrip :: "pystr \<Rightarrow> pystr" where
  "py_rstrip s = rev (dropWhile py_isspace (rev s))"

definition py_strip :: "pystr \<Rightarrow> pystr" where
  "py_strip s = py_rstrip (py_lstrip s)"

text \<open>\<open>s.rstrip(chars)\<close>: every trailing code point that occurs in \<open>chars\<close> goes.\<close>

definition py_rstrip_chars :: "pystr \<Rightarrow> pystr \<Rightarrow> pystr" where
  "py_rstrip_chars chars s = rev (dropWhile (\<lambda>c. c \<in> set chars) (rev s))"

definition py_startswith :: "pystr \<Rightarrow> pystr \<Rightarrow> bool" where
  "py_startswith s p = prefix p s"

text \<open>\<open>p in s\<close> on strings: \<open>p\<close> occurs in \<open>s\<close> as a contiguous run.\<close>

fun py_in :: "pystr \<Rightarrow> pystr \<Rightarrow> bool" where
  "py_in p [] = (p = [])"
| "py_in p (c # s) = (prefix p (c # s) \<or> py_in p s)"

text \<open>
  \<open>str.lower()\<close> on the letters A to Z.  The source lowers a string only to ask whether
  \<open>'poster'\<close> occurs in it, and no code point outside A to Z lowers to one of the letters
  of that word, so other code points are left as they are.
\<close>

definition py_lower :: "pystr \<Rightarrow> pystr" where
  "py_lower s = map (\<lambda>c. if 65 \<le> c \<and> c \<le> 90 then c + 32 else c) s"

text \<open>
  \<open>s.replace(old, new)\<close>: the occurrences of \<open>old\<close> are found from the left, without
  overlap, and every one of them is replaced.  With an empty \<open>old\<close> Python puts \<open>new\<close>
  before every code point and at the end.
\<close>

function py_replace :: "pystr \<Rightarrow> pystr \<Rightarrow> pystr \<Rightarrow> pystr" where
  "py_replace old new s =
     (if old = [] then new @ concat (map (\<lambda>c. c # new) s)
      else if s = [] then []
      else if prefix old s then new @ py_replace old new (drop (length old) s)
      else hd s # py_replace old new (tl s))"
  by pat_completeness auto
termination
  by (relation "measure (\<lambda>(old, new, s). length s)") auto

declare py_replace.simps [simp del]

text \<open>\<open>s.split(maxsplit=1)\<close>: the first word, and what follows it from its first
  code point that is not whitespace on (trailing whitespace kept), when there is any.\<close>

definition py_split1 :: "pystr \<Rightarrow> pystr list" where
  "py_split1 s =
     (let s1 = dropWhile py_isspace s in
      if s1 = [] then []
      else let w = takeWhile (\<lambda>c. \<not> py_isspace c) s1;
               r = dropWhile py_isspace (dropWhile (\<lambda>c. \<not> py_isspace c) s1)
           in if r = [] then [w] else [w, r])"

section \<open>The document model of BeautifulSoup\<close>

text \<open>
  \<open>BeautifulSoup(content, 'html.parser')\<close> turns the page into a tree of tags and
  strings.  A tag has a name, the tokens of its \<open>class\<close> attribute (the library keeps
  that attribute as a list), its other attributes and its children.  The soup itself is a
  tag, the root of the document.
\<close>

datatype node =
    Text pystr
  | Tag (name: pystr) (classes: "pystr list") (attrs: "(pystr \<times> pystr) list")
      (contents: "node list")

text \<open>All nodes below a node, in document order.\<close>

fun descendants :: "node \<Rightarrow> node list" where
  "descendants (Text s) = []"
| "descendants (Tag n cs as ks) = concat (map (\<lambda>k. k # descendants k) ks)"

text \<open>The strings below a node, in document order; \<open>.text\<close> joins them.\<close>

fun strings :: "node \<Rightarrow> pystr list" where
  "strings (Text s) = [s]"
| "strings (Tag n cs as ks) = concat (map strings ks)"

definition text_of :: "node \<Rightarrow> pystr" where
  "text_of n = concat (strings n)"

text \<open>\<open>get_text(strip=True)\<close>: every string is stripped, the empty ones are dropped,
  and the rest is joined with nothing in between.\<close>

definition get_text_strip :: "node \<Rightarrow> pystr" where
  "get_text_strip n = concat (filter (\<lambda>s. s \<noteq> []) (map py_strip (strings n)))"

text \<open>\<open>tag.get(key)\<close> and \<open>tag.get(key, default)\<close>.\<close>

fun get_attr :: "node \<Rightarrow> pystr \<Rightarrow> pystr option" where
  "get_attr (Text s) k = None"
| "get_attr (Tag n cs as ks) k = map_of as k"

definition get_attr_default :: "node \<Rightarrow> pystr \<Rightarrow> pystr \<Rightarrow> pystr" where
  "get_attr_default n k d = (case get_attr n k of None \<Rightarrow> d | Some v \<Rightarrow> v)"

text \<open>The filters of \<open>find\<close> and \<open>find_all\<close>: a tag name, and a class among the
  tag's classes.\<close>

fun is_tag :: "pystr \<Rightarrow> node \<Rightarrow> bool" where
  "is_tag nm (Text s) = False"
| "is_tag nm (Tag n cs as ks) = (n = nm)"

fun has_class :: "pystr \<Rightarrow> node \<Rightarrow> bool" where
  "has_class c (Text s) = False"
| "has_class c (Tag n cs as ks) = (c \<in> set cs)"

definition find_all :: "(node \<Rightarrow> bool) \<Rightarrow> node \<Rightarrow> node list" where
  "find_all p n = filter p (descendants n)"

definition find_first :: "(node \<Rightarrow> bool) \<Rightarrow> node \<Rightarrow> node option" where
  "find_first p n = (case find_all p n of [] \<Rightarrow> None | x # xs \<Rightarrow> Some x)"

section \<open>The search page\<close>

definition BASE_URL :: pystr where
  "BASE_URL = str ''https://mydramalist.com''"

record search_result =
  sr_id :: pystr
  sr_title :: pystr
  sr_url :: pystr
  sr_type_year :: pystr

text \<open>\<open>soup.find_all('div', class_='box', id=lambda x: x and x.startswith('mdl-'))\<close>\<close>

definition is_drama_box :: "node \<Rightarrow> bool" where
  "is_drama_box n =
     (is_tag (str ''div'') n \<and> has_class (str ''box'') n \<and>
      (case get_attr n (str ''id'') of
         None \<Rightarrow> False
       | Some x \<Rightarrow> x \<noteq> [] \<and> py_startswith x (str ''mdl-'')))"

definition drama_boxes :: "node \<Rightarrow> node list" where
  "drama_boxes soup = find_all is_drama_box soup"

definition find_title_tag :: "node \<Rightarrow> node option" where
  "find_title_tag box = find_first (\<lambda>n. is_tag (str ''h6'') n \<and> has_class (str ''title'') n) box"

definition find_link_tag :: "node \<Rightarrow> node option" where
  "find_link_tag title_tag = find_first (is_tag (str ''a'')) title_tag"

text \<open>The dictionary the loop body appends for a box with its title tag and link.\<close>

definition box_entry :: "node \<Rightarrow> node \<Rightarrow> search_result" where
  "box_entry box link_tag =
     \<lparr> sr_id = py_replace (str ''mdl-'') [] (get_attr_default box (str ''id'') []),
       sr_title = py_strip (text_of link_tag),
       sr_url = BASE_URL @ get_attr_default link_tag (str ''href'') [],
       sr_type_year =
         (case find_first (\<lambda>n. is_tag (str ''span'') n \<and> has_class (str ''text-muted'') n) box of
            None \<Rightarrow> []
          | Some type_info \<Rightarrow> py_strip (text_of type_info)) \<rparr>"

text \<open>The loop \<open>for box in ...\<close>, with \<open>results\<close> as it stands before the box.\<close>

fun scan_boxes :: "node list \<Rightarrow> search_result list \<Rightarrow> search_result list" where
  "scan_boxes [] results = results"
| "scan_boxes (box # boxes) results =
     (case find_title_tag box of
        None \<Rightarrow> scan_boxes boxes results
      | Some title_tag \<Rightarrow>
          (case find_link_tag title_tag of
             None \<Rightarrow> scan_boxes boxes results
           | Some link_tag \<Rightarrow> scan_boxes boxes (results @ [box_entry box link_tag])))"

text \<open>What \<open>search_dramas\<close> computes from the soup: the loop over \<open>drama_boxes[:10]\<close>.\<close>

definition parse_search_results :: "node \<Rightarrow> search_result list" where
  "parse_search_results soup = scan_boxes (take 10 (drama_boxes soup)) []"

section \<open>The detail page\<close>

record details =
  d_title :: pystr
  d_image_url :: pystr
  d_rating :: pystr
  d_country :: pystr
  d_type :: pystr
  d_episodes :: pystr
  d_aired :: pystr
  d_duration :: pystr
  d_genres :: pystr
  d_synopsis :: pystr
  d_url :: pystr

text \<open>The exceptions of the program: the \<open>AttributeError\<close> of an attribute read on
  \<open>None\<close>, and the errors the two collaborators raise (the browser automation and the
  messaging platform).  All of them are subclasses of \<open>Exception\<close>.\<close>

datatype exn = AttributeError | PlaywrightError | TelegramError

fun py_join :: "pystr \<Rightarrow> pystr list \<Rightarrow> pystr" where
  "py_join sep [] = []"
| "py_join sep [x] = x"
| "py_join sep (x # y # ys) = x @ sep @ py_join sep (y # ys)"

text \<open>\<open>soup.find('h1', class_='film-title')\<close> and the title read from it.\<close>

definition detail_title :: "node \<Rightarrow> pystr" where
  "detail_title soup =
     (case find_first (\<lambda>n. is_tag (str ''h1'') n \<and> has_class (str ''film-title'') n) soup of
        None \<Rightarrow> str ''Unknown''
      | Some title_tag \<Rightarrow> py_strip (text_of title_tag))"

text \<open>\<open>soup.find('img', class_='img-responsive', alt=lambda x: x and 'poster' in x.lower())\<close>,
  and the URL made absolute.\<close>

definition is_poster :: "node \<Rightarrow> bool" where
  "is_poster n =
     (is_tag (str ''img'') n \<and> has_class (str ''img-responsive'') n \<and>
      (case get_attr n (str ''alt'') of
         None \<Rightarrow> False
       | Some x \<Rightarrow> x \<noteq> [] \<and> py_in (str ''poster'') (py_lower x)))"

definition detail_image_url :: "node \<Rightarrow> pystr" where
  "detail_image_url soup =
     (let image_url = (case find_first is_poster soup of
                         None \<Rightarrow> []
                       | Some img_tag \<Rightarrow> get_attr_default img_tag (str ''src'') [])
      in if image_url \<noteq> [] \<and> \<not> py_startswith image_url (str ''http'')
         then (if py_startswith image_url (str ''//'') then str ''https:'' @ image_url
               else BASE_URL @ image_url)
         else image_url)"

text \<open>
  \<open>rating_div.find('div', class_='box').text.strip() if rating_div else 'N/A'\<close>: the
  inner \<open>find\<close> is not guarded, so that \<open>.text\<close> is read on \<open>None\<close> when the rating container
  has no inner box.
\<close>

definition detail_rating :: "node \<Rightarrow> exn + pystr" where
  "detail_rating soup =
     (case find_first (\<lambda>n. is_tag (str ''div'') n \<and> has_class (str ''col-film-rating'') n) soup of
        None \<Rightarrow> Inr (str ''N/A'')
      | Some rating_div \<Rightarrow>
          (case find_first (\<lambda>n. is_tag (str ''div'') n \<and> has_class (str ''box'') n) rating_div of
             None \<Rightarrow> Inl AttributeError
           | Some box \<Rightarrow> Inr (py_strip (text_of box))))"

text \<open>The loop over \<open>soup.find_all('li', class_='list-item')\<close> that fills \<open>info\<close>.\<close>

definition info_item :: "(pystr \<rightharpoonup> pystr) \<Rightarrow> node \<Rightarrow> (pystr \<rightharpoonup> pystr)" where
  "info_item info item =
     (case find_first (\<lambda>n. is_tag (str ''b'') n \<and> has_class (str ''inline'') n) item of
        None \<Rightarrow> info
      | Some b_tag \<Rightarrow>
          (let key = py_rstrip_chars (str '':'') (py_strip (text_of b_tag));
               v = py_strip (py_replace (key @ str '':'') [] (get_text_strip item))
           in info(key \<mapsto> v)))"

definition detail_info :: "node \<Rightarrow> (pystr \<rightharpoonup> pystr)" where
  "detail_info soup =
     foldl info_item Map.empty
       (find_all (\<lambda>n. is_tag (str ''li'') n \<and> has_class (str ''list-item'') n) soup)"

text \<open>\<open>info.get(k1, info.get(k2, 'N/A'))\<close>\<close>

definition info_get :: "(pystr \<rightharpoonup> pystr) \<Rightarrow> pystr \<Rightarrow> pystr \<Rightarrow> pystr" where
  "info_get info k1 k2 =
     (case info k1 of
        Some v \<Rightarrow> v
      | None \<Rightarrow> (case info k2 of Some v \<Rightarrow> v | None \<Rightarrow> str ''N/A''))"

text \<open>
  \<open>link.decompose()\<close> for every \<open>a\<close> below the synopsis container takes these tags out
  of the tree.  The soup is changed in place: what is searched afterwards (the genres) is
  searched in the changed tree.
\<close>

fun remove_links :: "node \<Rightarrow> node" where
  "remove_links (Text s) = Text s"
| "remove_links (Tag n cs as ks) =
     Tag n cs as (map remove_links (filter (\<lambda>k. \<not> is_tag (str ''a'') k) ks))"

text \<open>The tree with \<open>f\<close> applied to the first node in document order that satisfies \<open>p\<close>;
  \<open>None\<close> when no node does.\<close>

fun update_first :: "(node \<Rightarrow> bool) \<Rightarrow> (node \<Rightarrow> node) \<Rightarrow> node list \<Rightarrow> node list option" where
  "update_first p f [] = None"
| "update_first p f (Text s # ks) =
     (if p (Text s) then Some (f (Text s) # ks)
      else map_option ((#) (Text s)) (update_first p f ks))"
| "update_first p f (Tag n cs as cks # ks) =
     (if p (Tag n cs as cks) then Some (f (Tag n cs as cks) # ks)
      else (case update_first p f cks of
              Some cks' \<Rightarrow> Some (Tag n cs as cks' # ks)
            | None \<Rightarrow> map_option ((#) (Tag n cs as cks)) (update_first p f ks)))"

definition is_synopsis :: "node \<Rightarrow> bool" where
  "is_synopsis n = (is_tag (str ''div'') n \<and> has_class (str ''show-synopsis'') n)"

text \<open>The soup after the synopsis block of the source.\<close>

fun decompose_synopsis_links :: "node \<Rightarrow> node" where
  "decompose_synopsis_links (Text s) = Text s"
| "decompose_synopsis_links (Tag n cs as ks) =
     (case update_first is_synopsis remove_links ks of
        None \<Rightarrow> Tag n cs as ks
      | Some ks' \<Rightarrow> Tag n cs as ks')"

definition detail_synopsis :: "node \<Rightarrow> pystr" where
  "detail_synopsis soup =
     (case find_first is_synopsis soup of
        None \<Rightarrow> []
      | Some synopsis_div \<Rightarrow> get_text_strip (remove_links synopsis_div))"

definition detail_genres :: "node \<Rightarrow> pystr list" where
  "detail_genres soup =
     (case find_first (\<lambda>n. is_tag (str ''li'') n \<and> has_class (str ''show-genres'') n) soup of
        None \<Rightarrow> []
      | Some genres_li \<Rightarrow>
          map (\<lambda>link. py_strip (text_of link))
            (find_all (\<lambda>n. is_tag (str ''a'') n \<and> has_class (str ''text-primary'') n) genres_li))"

text \<open>
  What \<open>get_drama_details\<close> computes from the soup, in the order of the source: the first
  exception ends it.  Only the rating can raise.
\<close>

definition extract_details :: "node \<Rightarrow> pystr \<Rightarrow> exn + details" where
  "extract_details soup drama_url =
     (let title = detail_title soup;
          image_url = detail_image_url soup
      in case detail_rating soup of
           Inl e \<Rightarrow> Inl e
         | Inr rating \<Rightarrow>
             (let info = detail_info soup;
                  synopsis = detail_synopsis soup;
                  genres = detail_genres (decompose_synopsis_links soup)
              in Inr \<lparr> d_title = title,
                       d_image_url = image_url,
                       d_rating = rating,
                       d_country = info_get info (str ''Country'') (str ''Pays''),
                       d_type = info_get info (str ''Type'') (str ''Cat'' @ [233] @ str ''gorie''),
                       d_episodes = info_get info (str ''Episodes'') ([201] @ str ''pisodes''),
                       d_aired = info_get info (str ''Aired'') (str ''Diffus'' @ [233]),
                       d_duration = info_get info (str ''Duration'') (str ''Dur'' @ [233] @ str ''e''),
                       d_genres = (if genres \<noteq> [] then py_join (str '', '') genres else str ''N/A''),
                       d_synopsis = (if length synopsis > 500 then take 500 synopsis @ str ''...''
                                     else synopsis),
                       d_url = drama_url \<rparr>))"

section \<open>Effects\<close>

text \<open>
  What the program tells the user.  The fixed wording and markup of a message are not
  modelled; a message is the kind of notice it is, with the data the source puts in it.
\<close>

datatype button = CallbackButton pystr pystr | UrlButton pystr pystr

datatype notice =
    Usage
  | Searching pystr
  | NoResults pystr
  | SearchResults pystr nat "button list"
  | SearchFailed
  | SearchAgain
  | DramaNotFound
  | Loading
  | CouldNotFetch
  | Details pystr button
  | DetailsFailed

text \<open>
  The calls the program makes on its collaborators: the browser automation, the HTML
  parser and the messaging platform.  Messages are known by their identifier.
\<close>

datatype call =
    PlaywrightStart
  | FirefoxLaunch
  | NewContext
  | NewPage
  | Goto pystr
  | WaitNetworkIdle
  | PageContent
  | PageClose
  | ContextClose
  | MakeSoup pystr
  | BrowserClose
  | PlaywrightStop
  | ReplyText notice
  | EditText nat notice
  | AnswerCallback
  | DeleteMessage nat
  | SendPhoto pystr pystr button
  | Sleep

text \<open>
  The world outside the program, fixed for a run: which of the calls on a collaborator
  raise (by the number of the call in the run), the rendered HTML of every URL, and the
  tree the parser makes of a page.
\<close>

record env =
  fails :: "nat \<Rightarrow> bool"
  page_html :: "pystr \<Rightarrow> pystr"
  soup_of :: "pystr \<Rightarrow> node"

record user_session =
  us_results :: "search_result list"
  us_query :: pystr

text \<open>
  The state: the two handles of the scraper (\<open>False\<close> is \<open>None\<close>), \<open>user_data\<close>, the
  messages the platform has deleted and the identifier it gives the next message, the
  number of calls made on collaborators, and the calls made so far, each with whether it
  returned (\<open>True\<close>) or raised.
\<close>

record world =
  playwright :: bool
  browser :: bool
  user_data :: "int \<rightharpoonup> user_session"
  deleted :: "nat set"
  next_message_id :: nat
  clock :: nat
  trace :: "(call \<times> bool) list"

type_synonym 'a io = "world \<Rightarrow> (exn + 'a) \<times> world"

definition ret :: "'a \<Rightarrow> 'a io" where
  "ret x = (\<lambda>w. (Inr x, w))"

definition seq :: "'a io \<Rightarrow> ('a \<Rightarrow> 'b io) \<Rightarrow> 'b io" where
  "seq m f = (\<lambda>w. case m w of (Inl e, w') \<Rightarrow> (Inl e, w') | (Inr x, w') \<Rightarrow> f x w')"

definition get :: "(world \<Rightarrow> 'a) \<Rightarrow> 'a io" where
  "get f = (\<lambda>w. (Inr (f w), w))"

definition modify :: "(world \<Rightarrow> world) \<Rightarrow> unit io" where
  "modify f = (\<lambda>w. (Inr (), f w))"

text \<open>\<open>try: m  except Exception as e: h e\<close>\<close>

definition try_except :: "'a io \<Rightarrow> (exn \<Rightarrow> 'a io) \<Rightarrow> 'a io" where
  "try_except m h = (\<lambda>w. case m w of (Inl e, w') \<Rightarrow> h e w' | (Inr x, w') \<Rightarrow> (Inr x, w'))"

text \<open>\<open>try: m  finally: fin\<close>: an exception of \<open>fin\<close> replaces the outcome of \<open>m\<close>.\<close>

definition try_finally :: "'a io \<Rightarrow> unit io \<Rightarrow> 'a io" where
  "try_finally m fin =
     (\<lambda>w. case m w of (r, w') \<Rightarrow> (case fin w' of (Inl e, w'') \<Rightarrow> (Inl e, w'') | (Inr u, w'') \<Rightarrow> (r, w'')))"

text \<open>A call that cannot raise: it is recorded.\<close>

definition record_call :: "call \<Rightarrow> unit io" where
  "record_call c = modify (\<lambda>w. w\<lparr>trace := trace w @ [(c, True)]\<rparr>)"

text \<open>A call on a collaborator: it is counted and recorded, and raises \<open>e\<close> when the
  world says so or when \<open>blocked\<close> holds.\<close>

definition external :: "env \<Rightarrow> call \<Rightarrow> exn \<Rightarrow> bool \<Rightarrow> unit io" where
  "external env c e blocked =
     (\<lambda>w. let ok = (\<not> fails env (clock w) \<and> \<not> blocked)
          in (if ok then Inr () else Inl e,
              w\<lparr>clock := Suc (clock w), trace := trace w @ [(c, ok)]\<rparr>))"

definition browser_call :: "env \<Rightarrow> call \<Rightarrow> unit io" where
  "browser_call env c = external env c PlaywrightError False"

subsection \<open>The messaging platform\<close>

text \<open>
  The platform rejects the edit and the deletion of a message that has been deleted.
  A reply is a new message.
\<close>

definition reply_text :: "env \<Rightarrow> notice \<Rightarrow> nat io" where
  "reply_text env n =
     seq (external env (ReplyText n) TelegramError False) (\<lambda>_.
     seq (get next_message_id) (\<lambda>i.
     seq (modify (\<lambda>w. w\<lparr>next_message_id := Suc i\<rparr>)) (\<lambda>_.
     ret i)))"

definition edit_text :: "env \<Rightarrow> nat \<Rightarrow> notice \<Rightarrow> unit io" where
  "edit_text env m n =
     seq (get deleted) (\<lambda>d. external env (EditText m n) TelegramError (m \<in> d))"

definition delete_message :: "env \<Rightarrow> nat \<Rightarrow> unit io" where
  "delete_message env m =
     seq (get deleted) (\<lambda>d.
     seq (external env (DeleteMessage m) TelegramError (m \<in> d)) (\<lambda>_.
     modify (\<lambda>w. w\<lparr>deleted := insert m (deleted w)\<rparr>)))"

definition send_photo :: "env \<Rightarrow> pystr \<Rightarrow> pystr \<Rightarrow> button \<Rightarrow> unit io" where
  "send_photo env photo caption b = external env (SendPhoto photo caption b) TelegramError False"

definition answer :: "env \<Rightarrow> unit io" where
  "answer env = external env AnswerCallback TelegramError False"

section \<open>The scraper\<close>

definition ensure_browser :: "env \<Rightarrow> unit io" where
  "ensure_browser env =
     seq (get browser) (\<lambda>b.
     if \<not> b then
       seq (browser_call env PlaywrightStart) (\<lambda>_.
       seq (modify (\<lambda>w. w\<lparr>playwright := True\<rparr>)) (\<lambda>_.
       seq (browser_call env FirefoxLaunch) (\<lambda>_.
       modify (\<lambda>w. w\<lparr>browser := True\<rparr>))))
     else ret ())"

text \<open>\<open>_get_page_content\<close>: \<open>None\<close> is the \<open>None\<close> of the source.\<close>

definition get_page_content :: "env \<Rightarrow> pystr \<Rightarrow> pystr option io" where
  "get_page_content env url =
     seq (ensure_browser env) (\<lambda>_.
     seq (browser_call env NewContext) (\<lambda>_.
     seq (browser_call env NewPage) (\<lambda>_.
     try_finally
       (try_except
          (seq (browser_call env (Goto url)) (\<lambda>_.
           seq (browser_call env WaitNetworkIdle) (\<lambda>_.
           seq (browser_call env PageContent) (\<lambda>_.
           ret (Some (page_html env url))))))
          (\<lambda>e. ret None))
       (seq (browser_call env PageClose) (\<lambda>_. browser_call env ContextClose)))))"

definition make_soup :: "env \<Rightarrow> pystr \<Rightarrow> node io" where
  "make_soup env content = seq (record_call (MakeSoup content)) (\<lambda>_. ret (soup_of env content))"

definition search_url :: "pystr \<Rightarrow> pystr" where
  "search_url q = BASE_URL @ str ''/search?q='' @ q"

definition search_dramas :: "env \<Rightarrow> pystr \<Rightarrow> search_result list io" where
  "search_dramas env q =
     try_except
       (seq (get_page_content env (search_url q)) (\<lambda>content.
        case content of
          None \<Rightarrow> ret []
        | Some c \<Rightarrow>
            if c = [] then ret []
            else seq (make_soup env c) (\<lambda>soup. ret (parse_search_results soup))))
       (\<lambda>e. ret [])"

text \<open>\<open>get_drama_details\<close>: \<open>None\<close> is the \<open>None\<close> of the source.\<close>

definition get_drama_details :: "env \<Rightarrow> pystr \<Rightarrow> details option io" where
  "get_drama_details env drama_url =
     try_except
       (seq (get_page_content env drama_url) (\<lambda>content.
        case content of
          None \<Rightarrow> ret None
        | Some c \<Rightarrow>
            if c = [] then ret None
            else seq (make_soup env c) (\<lambda>soup.
                 case extract_details soup drama_url of
                   Inl e \<Rightarrow> (\<lambda>w. (Inl e, w))
                 | Inr d \<Rightarrow> ret (Some d))))
       (\<lambda>e. ret None)"

definition close :: "env \<Rightarrow> unit io" where
  "close env =
     try_except
       (seq (get browser) (\<lambda>b.
        seq (if b then seq (browser_call env BrowserClose) (\<lambda>_. modify (\<lambda>w. w\<lparr>browser := False\<rparr>))
             else ret ()) (\<lambda>_.
        seq (get playwright) (\<lambda>p.
        if p then seq (browser_call env PlaywrightStop) (\<lambda>_. modify (\<lambda>w. w\<lparr>playwright := False\<rparr>))
        else ret ()))))
       (\<lambda>e. modify (\<lambda>w. w\<lparr>browser := False, playwright := False\<rparr>))"

section \<open>The handlers\<close>

record message =
  msg_text :: pystr
  msg_user :: int

record callback_query =
  cq_data :: pystr
  cq_user :: int
  cq_message :: nat

text \<open>The row of the inline keyboard for one result.\<close>

definition result_button :: "search_result \<Rightarrow> button" where
  "result_button drama =
     (let button_text = sr_title drama @
            (if sr_type_year drama \<noteq> [] then str '' ('' @ sr_type_year drama @ str '')'' else [])
      in CallbackButton (take 64 button_text) (str ''mdl_'' @ sr_id drama))"

definition drama_command :: "env \<Rightarrow> message \<Rightarrow> unit io" where
  "drama_command env message =
     (let command_parts = py_split1 (msg_text message) in
      if length command_parts < 2 then
        seq (reply_text env Usage) (\<lambda>_. ret ())
      else
        let q = py_strip (command_parts ! 1) in
        seq (reply_text env (Searching q)) (\<lambda>searching_msg.
        try_except
          (seq (search_dramas env q) (\<lambda>rs.
           seq (close env) (\<lambda>_.
           if rs = [] then edit_text env searching_msg (NoResults q)
           else
             seq (modify (\<lambda>w. w\<lparr>user_data :=
                    (user_data w)(msg_user message \<mapsto> \<lparr>us_results = rs, us_query = q\<rparr>)\<rparr>)) (\<lambda>_.
             edit_text env searching_msg
               (SearchResults q (length rs) (map result_button rs))))))
          (\<lambda>e. seq (close env) (\<lambda>_. edit_text env searching_msg SearchFailed))))"

text \<open>The loop that looks the identifier up in the stored results.\<close>

fun lookup_url :: "search_result list \<Rightarrow> pystr \<Rightarrow> pystr option" where
  "lookup_url [] drama_id = None"
| "lookup_url (drama # dramas) drama_id =
     (if sr_id drama = drama_id then Some (sr_url drama) else lookup_url dramas drama_id)"

definition nl :: pystr where
  "nl = [10]"

definition caption_of :: "details \<Rightarrow> pystr" where
  "caption_of d =
     str ''<b>'' @ d_title d @ str ''</b>'' @ nl @ nl @
     [11088] @ str '' <b>Rating:</b> '' @ d_rating d @ str ''/10'' @ nl @
     [127757] @ str '' <b>Country:</b> '' @ d_country d @ nl @
     [128250] @ str '' <b>Type:</b> '' @ d_type d @ nl @
     [128202] @ str '' <b>Episodes:</b> '' @ d_episodes d @ nl @
     [128197] @ str '' <b>Aired:</b> '' @ d_aired d @ nl @
     [9201] @ str '' <b>Duration:</b> '' @ d_duration d @ nl @
     [127917] @ str '' <b>Genres:</b> '' @ d_genres d @ nl @ nl @
     [128214] @ str '' <b>Synopsis:</b>'' @ nl @ d_synopsis d"

definition site_button :: "details \<Rightarrow> button" where
  "site_button d = UrlButton ([127760] @ str '' View on MyDramaList'') (d_url d)"

definition drama_callback :: "env \<Rightarrow> callback_query \<Rightarrow> unit io" where
  "drama_callback env cq =
     seq (answer env) (\<lambda>_.
     let drama_id = py_replace (str ''mdl_'') [] (cq_data cq);
         msg = cq_message cq in
     seq (get user_data) (\<lambda>ud.
     case ud (cq_user cq) of
       None \<Rightarrow> edit_text env msg SearchAgain
     | Some session \<Rightarrow>
         (case lookup_url (us_results session) drama_id of
            None \<Rightarrow> edit_text env msg DramaNotFound
          | Some drama_url \<Rightarrow>
              if drama_url = [] then edit_text env msg DramaNotFound
              else
                seq (edit_text env msg Loading) (\<lambda>_.
                try_except
                  (seq (get_drama_details env drama_url) (\<lambda>found.
                   case found of
                     None \<Rightarrow> seq (close env) (\<lambda>_. edit_text env msg CouldNotFetch)
                   | Some d \<Rightarrow>
                       try_except
                         (seq (if d_image_url d \<noteq> [] then
                                 seq (delete_message env msg) (\<lambda>_.
                                 send_photo env (d_image_url d) (caption_of d) (site_button d))
                               else edit_text env msg (Details (caption_of d) (site_button d))) (\<lambda>_.
                          seq (record_call Sleep) (\<lambda>_.
                          close env)))
                         (\<lambda>e. seq (edit_text env msg (Details (caption_of d) (site_button d))) (\<lambda>_.
                              seq (record_call Sleep) (\<lambda>_.
                              close env)))))
                  (\<lambda>e. seq (close env) (\<lambda>_. edit_text env msg DetailsFailed))))))"

text \<open>One interaction: a \<open>/drama\<close> command or the press of a result button, given to
  the handler registered for it.\<close>

datatype interaction = Search message | Select callback_query

definition interact :: "env \<Rightarrow> interaction \<Rightarrow> unit io" where
  "interact env i = (case i of Search m \<Rightarrow> drama_command env m | Select cq \<Rightarrow> drama_callback env cq)"

section \<open>The search page: what the extraction returns\<close>

text \<open>
  The anchor of a box (the one inside its title element), and the entry the loop appends
  for the box when it appends one.
\<close>

definition box_link :: "node \<Rightarrow> node option" where
  "box_link box = (case find_title_tag box of None \<Rightarrow> None | Some title_tag \<Rightarrow> find_link_tag title_tag)"

definition box_result :: "node \<Rightarrow> search_result option" where
  "box_result box = map_option (box_entry box) (box_link box)"

lemma scan_boxes_map_filter:
  "scan_boxes boxes results = results @ List.map_filter box_result boxes"
  by (induction boxes arbitrary: results)
     (auto simp: box_result_def box_link_def split: option.splits)

subsection \<open>Strings\<close>

lemma py_in_sublist: "py_in p s = sublist p s"
  by (induction s) (auto simp: sublist_Cons_right)

lemma py_replace_absent:
  "old \<noteq> [] \<Longrightarrow> \<not> py_in old s \<Longrightarrow> py_replace old new s = s"
proof (induction old new s rule: py_replace.induct)
  case (1 old new s)
  show ?case
  proof (cases s)
    case Nil
    then show ?thesis using 1 by (simp add: py_replace.simps)
  next
    case (Cons c cs)
    have np: "\<not> prefix old s" using 1(4) Cons by simp
    have "\<not> py_in old cs" using 1(4) Cons by simp
    then have "py_replace old new cs = cs" using 1(2)[OF 1(3) _ np] Cons 1(3) by simp
    then show ?thesis using np Cons 1(3) by (subst py_replace.simps) simp
  qed
qed

lemma py_replace_prefix:
  "old \<noteq> [] \<Longrightarrow> py_replace old new (old @ s) = new @ py_replace old new s"
  by (subst py_replace.simps) simp




subsection \<open>Well-formed containers\<close>






subsection \<open>Example pages\<close>

definition titled_box :: "pystr \<Rightarrow> pystr \<Rightarrow> node" where
  "titled_box i t =
     Tag (str ''div'') [str ''box''] [(str ''id'', str ''mdl-'' @ i)]
       [Tag (str ''h6'') [str ''title''] []
          [Tag (str ''a'') [] [(str ''href'', str ''/'' @ i)] [Text t]]]"

definition untitled_box :: "pystr \<Rightarrow> node" where
  "untitled_box i = Tag (str ''div'') [str ''box''] [(str ''id'', str ''mdl-'' @ i)] []"

definition page_of_boxes :: "node list \<Rightarrow> node" where
  "page_of_boxes boxes = Tag (str ''[document]'') [] [] boxes"

definition three_results_page :: node where
  "three_results_page =
     page_of_boxes [titled_box (str ''12345'') (str ''Squid Game''),
                    titled_box (str ''67890'') (str ''Squid Game 2''),
                    titled_box (str ''11111'') (str ''Squid Game 3'')]"

definition eleven_boxes_page :: node where
  "eleven_boxes_page =
     page_of_boxes (untitled_box (str ''0'') # map (\<lambda>i. titled_box [49, 48 + i] (str ''T'')) [0..<10])"

lemma is_drama_box_titled: "is_drama_box (titled_box i t)"
  by (simp add: is_drama_box_def titled_box_def get_attr_default_def py_startswith_def str_def)

lemma is_drama_box_untitled: "is_drama_box (untitled_box i)"
  by (simp add: is_drama_box_def untitled_box_def py_startswith_def str_def)

lemma descendants_titled:
  "filter is_drama_box (descendants (titled_box i t)) = []"
  by (simp add: titled_box_def is_drama_box_def str_def)

lemma descendants_untitled: "descendants (untitled_box i) = []"
  by (simp add: untitled_box_def)

lemma box_result_titled:
  "box_result (titled_box i t) =
     Some \<lparr> sr_id = py_replace (str ''mdl-'') [] (str ''mdl-'' @ i), sr_title = py_strip t,
            sr_url = BASE_URL @ str ''/'' @ i, sr_type_year = [] \<rparr>"
  by (simp add: box_result_def box_link_def find_title_tag_def find_link_tag_def find_first_def
      find_all_def titled_box_def box_entry_def get_attr_default_def text_of_def str_def)

lemma box_result_untitled: "box_result (untitled_box i) = None"
  by (simp add: box_result_def box_link_def find_title_tag_def find_first_def find_all_def
      untitled_box_def)

lemma drama_boxes_three:
  "drama_boxes three_results_page =
     [titled_box (str ''12345'') (str ''Squid Game''),
      titled_box (str ''67890'') (str ''Squid Game 2''),
      titled_box (str ''11111'') (str ''Squid Game 3'')]"
  by (simp add: drama_boxes_def find_all_def three_results_page_def page_of_boxes_def
      is_drama_box_titled descendants_titled)

lemma filter_boxes_titled:
  "filter is_drama_box (concat (map ((\<lambda>k. k # descendants k) \<circ> (\<lambda>i. titled_box (f i) t)) xs))
     = map (\<lambda>i. titled_box (f i) t) xs"
  by (induction xs) (simp_all add: is_drama_box_titled descendants_titled)

lemma drama_boxes_eleven:
  "drama_boxes eleven_boxes_page =
     untitled_box (str ''0'') # map (\<lambda>i. titled_box [49, 48 + i] (str ''T'')) [0..<10]"
  by (simp add: drama_boxes_def find_all_def eleven_boxes_page_def page_of_boxes_def
      is_drama_box_untitled descendants_untitled filter_boxes_titled del: upt.simps map_upt_Suc upt_Suc)

lemma map_filter_titled:
  "List.map_filter box_result (map (\<lambda>i. titled_box (f i) t) xs) =
     map (\<lambda>i. the (box_result (titled_box (f i) t))) xs"
  by (induction xs) (simp_all add: box_result_titled)


lemma three_results_found: "parse_search_results three_results_page \<noteq> []"
  by (simp add: parse_search_results_def scan_boxes_map_filter drama_boxes_three box_result_titled)

lemma zero_results: "parse_search_results (page_of_boxes []) = []"
  by (simp add: parse_search_results_def drama_boxes_def find_all_def page_of_boxes_def)

subsection \<open>Pages of well-formed containers\<close>



subsection \<open>The cap of ten\<close>

text \<open>
  Claim C3 says that the cap is on the output: ten valid containers among eleven would all
  be returned.  On the page of eleven containers whose first has no title element, ten
  containers are valid and the source returns nine entries.
\<close>

theorem output_cap_counterexample:
  "length (List.map_filter box_result (drama_boxes eleven_boxes_page)) = 10 \<and>
   length (parse_search_results eleven_boxes_page) = 9 \<and>
   parse_search_results eleven_boxes_page
     \<noteq> take 10 (List.map_filter box_result (drama_boxes eleven_boxes_page))"
proof -
  have a: "length (List.map_filter box_result (drama_boxes eleven_boxes_page)) = 10"
    by (simp add: drama_boxes_eleven box_result_untitled map_filter_titled del: upt.simps map_upt_Suc upt_Suc)
  have "take 10 (drama_boxes eleven_boxes_page) =
     untitled_box (str ''0'') # map (\<lambda>i. titled_box [49, 48 + i] (str ''T'')) [0..<9]"
    by (simp add: drama_boxes_eleven take_Cons' take_map del: upt.simps map_upt_Suc upt_Suc)
  then have b: "length (parse_search_results eleven_boxes_page) = 9"
    by (simp add: parse_search_results_def scan_boxes_map_filter box_result_untitled map_filter_titled
        del: upt.simps map_upt_Suc upt_Suc)
  show ?thesis using a b by auto
qed

text \<open>
  Claim C3, amended.  The source scans the first ten matching containers only.  The
  result is, in document order, the entries of those among the first ten that have their
  title element and anchor: a container without them contributes nothing and changes no
  other entry, and a container after the tenth never appears.
\<close>

theorem search_scan_is_capped:
  "parse_search_results soup = List.map_filter box_result (take 10 (drama_boxes soup)) \<and>
   length (parse_search_results soup) \<le> length (take 10 (drama_boxes soup))"
proof -
  have "parse_search_results soup = List.map_filter box_result (take 10 (drama_boxes soup))"
    by (simp add: parse_search_results_def scan_boxes_map_filter)
  moreover have "length (List.map_filter box_result (take 10 (drama_boxes soup)))
     \<le> length (take 10 (drama_boxes soup))"
    unfolding List.map_filter_def by (simp del: length_take)
  ultimately show ?thesis by simp
qed

section \<open>Runs of the scraper\<close>

text \<open>
  The calls a run adds to the record, and what can be read off them: whether the browser
  was launched, whether the navigation raised (the timeout of the source), how often the
  browser was shut down, whether a page was parsed, whether a notice was sent.
\<close>

lemmas io_defs = seq_def ret_def get_def modify_def try_except_def try_finally_def external_def
  browser_call_def record_call_def

lemmas chat_defs = reply_text_def edit_text_def delete_message_def send_photo_def answer_def

definition new_events :: "world \<Rightarrow> world \<Rightarrow> (call \<times> bool) list" where
  "new_events w w' = drop (length (trace w)) (trace w')"

fun is_fetch_call :: "pystr \<Rightarrow> call \<Rightarrow> bool" where
  "is_fetch_call url PlaywrightStart = True"
| "is_fetch_call url FirefoxLaunch = True"
| "is_fetch_call url NewContext = True"
| "is_fetch_call url NewPage = True"
| "is_fetch_call url (Goto u) = (u = url)"
| "is_fetch_call url WaitNetworkIdle = True"
| "is_fetch_call url PageContent = True"
| "is_fetch_call url PageClose = True"
| "is_fetch_call url ContextClose = True"
| "is_fetch_call url c = False"

fun is_navigation :: "call \<Rightarrow> bool" where
  "is_navigation (Goto u) = True"
| "is_navigation WaitNetworkIdle = True"
| "is_navigation PageContent = True"
| "is_navigation c = False"

definition launched :: "(call \<times> bool) list \<Rightarrow> bool" where
  "launched evs = ((FirefoxLaunch, True) \<in> set evs)"

definition timed_out :: "(call \<times> bool) list \<Rightarrow> bool" where
  "timed_out evs = list_ex (\<lambda>e. is_navigation (fst e) \<and> \<not> snd e) evs"

definition closes :: "(call \<times> bool) list \<Rightarrow> nat" where
  "closes evs = length (filter (\<lambda>e. fst e = BrowserClose) evs)"

definition parsed :: "(call \<times> bool) list \<Rightarrow> bool" where
  "parsed evs = list_ex (\<lambda>e. case fst e of MakeSoup c \<Rightarrow> True | _ \<Rightarrow> False) evs"

definition issued :: "notice \<Rightarrow> (call \<times> bool) list \<Rightarrow> bool" where
  "issued n evs = list_ex (\<lambda>e. case fst e of EditText m n' \<Rightarrow> n' = n | _ \<Rightarrow> False) evs"

subsection \<open>Fetching a page\<close>

lemma get_page_content_summary:
  "case get_page_content env url w of (r, w') \<Rightarrow>
     w' = w\<lparr>playwright := playwright w', browser := (browser w \<or> launched (new_events w w')),
            clock := clock w + length (new_events w w'), trace := trace w @ new_events w w'\<rparr> \<and>
     list_all (\<lambda>e. is_fetch_call url (fst e)) (new_events w w') \<and>
     (launched (new_events w w') \<longrightarrow> \<not> browser w) \<and>
     (\<forall>c. r = Inr (Some c) \<longrightarrow> c = page_html env url \<and> \<not> timed_out (new_events w w') \<and>
          (Goto url, True) \<in> set (new_events w w'))"
  by (simp add: get_page_content_def ensure_browser_def io_defs Let_def launched_def timed_out_def
      new_events_def)

definition gp_result :: "env \<Rightarrow> pystr \<Rightarrow> world \<Rightarrow> exn + pystr option" where
  "gp_result env url w = fst (get_page_content env url w)"

definition gp_events :: "env \<Rightarrow> pystr \<Rightarrow> world \<Rightarrow> (call \<times> bool) list" where
  "gp_events env url w = new_events w (snd (get_page_content env url w))"

definition gp_playwright :: "env \<Rightarrow> pystr \<Rightarrow> world \<Rightarrow> bool" where
  "gp_playwright env url w = playwright (snd (get_page_content env url w))"

definition after_fetch :: "env \<Rightarrow> pystr \<Rightarrow> world \<Rightarrow> (call \<times> bool) list \<Rightarrow> world" where
  "after_fetch env url w later =
     w\<lparr>playwright := gp_playwright env url w,
       browser := (browser w \<or> launched (gp_events env url w)),
       clock := clock w + length (gp_events env url w),
       trace := trace w @ gp_events env url w @ later\<rparr>"

lemma gp_facts:
  "get_page_content env url w = (gp_result env url w, after_fetch env url w [])"
  "list_all (\<lambda>e. is_fetch_call url (fst e)) (gp_events env url w)"
  "launched (gp_events env url w) \<longrightarrow> \<not> browser w"
  "gp_result env url w = Inr (Some c) \<longrightarrow> c = page_html env url \<and> \<not> timed_out (gp_events env url w) \<and>
     (Goto url, True) \<in> set (gp_events env url w)"
proof -
  obtain r w' where run: "get_page_content env url w = (r, w')" by fastforce
  have defs: "gp_result env url w = r" "gp_events env url w = new_events w w'"
    "gp_playwright env url w = playwright w'"
    by (simp_all only: gp_result_def gp_events_def gp_playwright_def run fst_conv snd_conv)
  note s = get_page_content_summary[where env=env and url=url and w=w, unfolded run prod.case, folded defs]
  from s have "w' = after_fetch env url w []"
    unfolding after_fetch_def append_Nil2 by (rule conjunct1)
  then show "get_page_content env url w = (gp_result env url w, after_fetch env url w [])"
    using run defs(1) by (simp only:)
  from s show "list_all (\<lambda>e. is_fetch_call url (fst e)) (gp_events env url w)" by blast
  from s show "launched (gp_events env url w) \<longrightarrow> \<not> browser w" by blast
  from s show "gp_result env url w = Inr (Some c) \<longrightarrow> c = page_html env url \<and> \<not> timed_out (gp_events env url w) \<and>
     (Goto url, True) \<in> set (gp_events env url w)"
    by blast
qed

text \<open>
  A page is parsed exactly when the fetch returned HTML that is not empty; then the
  results and the details are those of the parsed page.
\<close>

definition fetched :: "env \<Rightarrow> pystr \<Rightarrow> world \<Rightarrow> bool" where
  "fetched env url w = (case gp_result env url w of Inr (Some c) \<Rightarrow> c \<noteq> [] | _ \<Rightarrow> False)"

definition soup_events :: "env \<Rightarrow> pystr \<Rightarrow> world \<Rightarrow> (call \<times> bool) list" where
  "soup_events env url w = (if fetched env url w then [(MakeSoup (page_html env url), True)] else [])"

definition sd_results :: "env \<Rightarrow> pystr \<Rightarrow> world \<Rightarrow> search_result list" where
  "sd_results env q w =
     (if fetched env (search_url q) w
      then parse_search_results (soup_of env (page_html env (search_url q))) else [])"

definition gd_details :: "env \<Rightarrow> pystr \<Rightarrow> world \<Rightarrow> details option" where
  "gd_details env url w =
     (if fetched env url w
      then (case extract_details (soup_of env (page_html env url)) url of
              Inl e \<Rightarrow> None | Inr d \<Rightarrow> Some d)
      else None)"

lemma search_dramas_run:
  "search_dramas env q w =
     (Inr (sd_results env q w), after_fetch env (search_url q) w (soup_events env (search_url q) w))"
proof (cases "gp_result env (search_url q) w")
  case (Inl e)
  then show ?thesis
    by (simp add: search_dramas_def seq_def try_except_def ret_def gp_facts(1) sd_results_def
        soup_events_def fetched_def)
next
  case (Inr content)
  show ?thesis
  proof (cases content)
    case None
    then show ?thesis using Inr
      by (simp add: search_dramas_def seq_def try_except_def ret_def gp_facts(1) sd_results_def
          soup_events_def fetched_def)
  next
    case (Some c)
    then have "c = page_html env (search_url q)" using Inr gp_facts(4) by blast
    then show ?thesis using Inr Some
      by (simp add: search_dramas_def seq_def try_except_def ret_def gp_facts(1) sd_results_def
          soup_events_def fetched_def make_soup_def record_call_def modify_def after_fetch_def)
  qed
qed

lemma get_drama_details_run:
  "get_drama_details env url w = (Inr (gd_details env url w), after_fetch env url w (soup_events env url w))"
proof (cases "gp_result env url w")
  case (Inl e)
  then show ?thesis
    by (simp add: get_drama_details_def seq_def try_except_def ret_def gp_facts(1) gd_details_def
        soup_events_def fetched_def)
next
  case (Inr content)
  show ?thesis
  proof (cases content)
    case None
    then show ?thesis using Inr
      by (simp add: get_drama_details_def seq_def try_except_def ret_def gp_facts(1) gd_details_def
          soup_events_def fetched_def)
  next
    case (Some c)
    then have "c = page_html env url" using Inr gp_facts(4) by blast
    then show ?thesis using Inr Some
      by (simp add: get_drama_details_def seq_def try_except_def ret_def gp_facts(1) gd_details_def
          soup_events_def fetched_def make_soup_def record_call_def modify_def after_fetch_def
          split: sum.splits)
  qed
qed

lemma fetched_facts:
  "fetched env url w \<Longrightarrow> \<not> timed_out (gp_events env url w)"
  "fetched env url w \<Longrightarrow> page_html env url \<noteq> []"
  "fetched env url w \<Longrightarrow> (Goto url, True) \<in> set (gp_events env url w)"
  using gp_facts(4)[of env url w]
  by (auto simp: fetched_def split: sum.splits option.splits)

subsection \<open>Closing\<close>

definition close_events :: "env \<Rightarrow> world \<Rightarrow> (call \<times> bool) list" where
  "close_events env w =
     (if browser w then
        (if fails env (clock w) then [(BrowserClose, False)]
         else if playwright w then [(BrowserClose, True), (PlaywrightStop, \<not> fails env (Suc (clock w)))]
         else [(BrowserClose, True)])
      else if playwright w then [(PlaywrightStop, \<not> fails env (clock w))]
      else [])"

lemma close_run:
  "close env w =
     (Inr (), w\<lparr>playwright := False, browser := False,
               clock := clock w + length (close_events env w),
               trace := trace w @ close_events env w\<rparr>)"
  by (simp add: close_def io_defs close_events_def Let_def)

subsection \<open>What the parts of a run record\<close>

lemma closes_simps [simp]:
  "closes [] = 0" "closes (xs @ ys) = closes xs + closes ys"
  "closes (e # xs) = (if fst e = BrowserClose then 1 else 0) + closes xs"
  by (simp_all add: closes_def)

lemma launched_simps [simp]:
  "\<not> launched []" "launched (xs @ ys) = (launched xs \<or> launched ys)"
  "launched (e # xs) = (e = (FirefoxLaunch, True) \<or> launched xs)"
  by (auto simp: launched_def)

lemma parsed_simps [simp]:
  "\<not> parsed []" "parsed (xs @ ys) = (parsed xs \<or> parsed ys)"
  "parsed (e # xs) = ((case fst e of MakeSoup c \<Rightarrow> True | _ \<Rightarrow> False) \<or> parsed xs)"
  "parsed (soup_events env url w) = fetched env url w"
  "\<not> parsed (close_events env w)"
  by (auto simp: parsed_def soup_events_def close_events_def)

lemma timed_out_simps [simp]:
  "\<not> timed_out []" "timed_out (xs @ ys) = (timed_out xs \<or> timed_out ys)"
  "timed_out (e # xs) = ((is_navigation (fst e) \<and> \<not> snd e) \<or> timed_out xs)"
  "\<not> timed_out (soup_events env url w)"
  "\<not> timed_out (close_events env w)"
  by (auto simp: timed_out_def soup_events_def close_events_def)

lemma issued_simps [simp]:
  "\<not> issued n []" "issued n (xs @ ys) = (issued n xs \<or> issued n ys)"
  "issued n (e # xs) = ((case fst e of EditText m n' \<Rightarrow> n' = n | _ \<Rightarrow> False) \<or> issued n xs)"
  by (auto simp: issued_def)

lemma gp_no_close: "closes (gp_events env url w) = 0"
proof -
  have "fst e \<noteq> BrowserClose" if "e \<in> set (gp_events env url w)" for e
    using gp_facts(2)[of url env w] that by (auto simp: list_all_iff)
  then show ?thesis by (simp add: closes_def filter_empty_conv)
qed

lemma gp_not_parsed: "\<not> parsed (gp_events env url w)"
proof -
  have "\<not> (case fst e of MakeSoup c \<Rightarrow> True | _ \<Rightarrow> False)" if "e \<in> set (gp_events env url w)" for e
    using gp_facts(2)[of url env w] that by (cases "fst e") (auto simp: list_all_iff)
  then show ?thesis by (auto simp: parsed_def list_ex_iff)
qed

lemma soup_events_simps [simp]:
  "closes (soup_events env url w) = 0" "\<not> launched (soup_events env url w)"
  by (simp_all add: soup_events_def closes_def launched_def)

lemma close_events_simps:
  "closes (close_events env w) = (if browser w then 1 else 0)"
  "\<not> launched (close_events env w)"
  "\<not> browser w \<Longrightarrow> \<not> playwright w \<Longrightarrow> close_events env w = []"
  by (simp_all add: close_events_def closes_def launched_def)

subsection \<open>Example worlds\<close>

definition idle_world :: world where
  "idle_world = \<lparr> playwright = False, browser = False, user_data = Map.empty, deleted = {},
                  next_message_id = 100, clock = 0, trace = [] \<rparr>"

definition calm_env :: "node \<Rightarrow> env" where
  "calm_env page = \<lparr> fails = (\<lambda>n. False), page_html = (\<lambda>url. str ''<html>''), soup_of = (\<lambda>c. page) \<rparr>"

definition failing_env :: "nat \<Rightarrow> node \<Rightarrow> env" where
  "failing_env k page = \<lparr> fails = (\<lambda>n. n = k), page_html = (\<lambda>url. str ''<html>''), soup_of = (\<lambda>c. page) \<rparr>"

definition squid_message :: message where
  "squid_message = \<lparr> msg_text = str ''/drama Squid Game'', msg_user = 7 \<rparr>"

definition query_of :: "message \<Rightarrow> pystr" where
  "query_of m = py_strip (py_split1 (msg_text m) ! 1)"

lemma squid_query:
  "py_split1 (msg_text squid_message) = [str ''/drama'', str ''Squid Game'']"
  "query_of squid_message = str ''Squid Game''"
  by (simp_all add: query_of_def squid_message_def py_split1_def py_strip_def py_lstrip_def
      py_rstrip_def py_isspace_def str_def Let_def)

lemma html_nonempty: "str ''<html>'' \<noteq> []"
  by (simp add: str_def)

lemmas run_defs = drama_command_def drama_callback_def search_dramas_def get_drama_details_def
  get_page_content_def ensure_browser_def close_def make_soup_def chat_defs io_defs Let_def

section \<open>Closing the session manager\<close>

text \<open>
  Claim C7.  \<open>close()\<close> never raises, whichever of its calls on the browser and on the
  automation driver raise; after it both handles are cleared; closing again changes
  nothing; and on a manager without browser and driver it is a no-op.
\<close>

theorem close_never_raises_and_resets:
  "fst (close env w) = Inr () \<and>
   \<not> browser (snd (close env w)) \<and> \<not> playwright (snd (close env w)) \<and>
   close env (snd (close env w)) = (Inr (), snd (close env w)) \<and>
   close env (w\<lparr>playwright := False, browser := False\<rparr>) =
     (Inr (), w\<lparr>playwright := False, browser := False\<rparr>)"
proof -
  have returns: "fst (close env w) = Inr ()"
    by (simp add: close_run)
  have reset: "\<not> browser (snd (close env w)) \<and> \<not> playwright (snd (close env w))"
    by (simp add: close_run)
  have idle: "close env v = (Inr (), v)" if "\<not> browser v" "\<not> playwright v" for v
    using that by (simp add: close_run close_events_simps(3))
  have again: "close env (snd (close env w)) = (Inr (), snd (close env w))"
    using reset by (intro idle) simp_all
  have noop: "close env (w\<lparr>playwright := False, browser := False\<rparr>) =
     (Inr (), w\<lparr>playwright := False, browser := False\<rparr>)"
    by (intro idle) simp_all
  show ?thesis using returns reset again noop by simp
qed

section \<open>The URL of a search\<close>

text \<open>
  Claim C10.  Every navigation of a search for \<open>q\<close> goes to the base URL followed by
  \<open>/search?q=\<close> and by \<open>q\<close> as it is, with nothing escaped; and results that are not empty
  come from a page fetched from that URL.
\<close>

theorem search_requests_verbatim_url:
  assumes "search_dramas env q w = (r, w')"
  shows "(\<forall>u ok. (Goto u, ok) \<in> set (new_events w w') \<longrightarrow> u = BASE_URL @ str ''/search?q='' @ q) \<and>
         (r \<noteq> Inr [] \<longrightarrow> (Goto (BASE_URL @ str ''/search?q='' @ q), True) \<in> set (new_events w w'))"
proof -
  have ev: "new_events w w' = gp_events env (search_url q) w @ soup_events env (search_url q) w"
    using assms by (auto simp: search_dramas_run after_fetch_def new_events_def)
  have r: "r = Inr (sd_results env q w)" using assms by (simp add: search_dramas_run)
  have a: "u = search_url q" if "(Goto u, ok) \<in> set (new_events w w')" for u ok
  proof -
    from that have "(Goto u, ok) \<in> set (gp_events env (search_url q) w)"
      unfolding ev by (auto simp: soup_events_def split: if_splits)
    then show ?thesis using gp_facts(2)[of "search_url q" env w] by (auto simp: list_all_iff)
  qed
  have b: "(Goto (search_url q), True) \<in> set (new_events w w')" if "r \<noteq> Inr []"
  proof -
    from that r have "fetched env (search_url q) w" by (auto simp: sd_results_def split: if_splits)
    then show ?thesis using fetched_facts(3) ev by simp
  qed
  show ?thesis using a b by (auto simp: search_url_def)
qed

text \<open>
  The query \<open>a b&c#d\<close>: the space, the ampersand and the hash are in the URL as they
  are.
\<close>

theorem search_requests_verbatim_url_witness:
  "(Goto (str ''https://mydramalist.com/search?q=a b&c#d''), True)
     \<in> set (new_events idle_world
              (snd (search_dramas (calm_env three_results_page) (str ''a b&c#d'') idle_world)))"
proof -
  let ?E = "calm_env three_results_page"
  let ?w' = "snd (search_dramas ?E (str ''a b&c#d'') idle_world)"
  have r: "fst (search_dramas ?E (str ''a b&c#d'') idle_world) = Inr (parse_search_results three_results_page)"
    using html_nonempty by (simp add: run_defs calm_env_def idle_world_def)
  then have run: "search_dramas ?E (str ''a b&c#d'') idle_world = (Inr (parse_search_results three_results_page), ?w')"
    by (metis prod.collapse)
  have ne: "Inr (parse_search_results three_results_page) \<noteq> (Inr [] :: exn + search_result list)"
    using three_results_found by simp
  from search_requests_verbatim_url[OF run] ne
  have "(Goto (BASE_URL @ str ''/search?q='' @ str ''a b&c#d''), True) \<in> set (new_events idle_world ?w')"
    by blast
  moreover have "BASE_URL @ str ''/search?q='' @ str ''a b&c#d'' = str ''https://mydramalist.com/search?q=a b&c#d''"
    by (simp add: BASE_URL_def str_def)
  ultimately show ?thesis by simp
qed

section \<open>One browser shutdown for every interaction\<close>

lemma drama_command_closes:
  assumes "drama_command env m w = (r, w')" "launched (new_events w w')"
  shows "closes (new_events w w') = 1 \<and> \<not> browser w' \<and> \<not> playwright w'"
  using assms gp_facts(3)
  by (auto simp: drama_command_def chat_defs io_defs Let_def search_dramas_run close_run
      after_fetch_def new_events_def gp_no_close close_events_simps
      split: if_splits)

lemma drama_callback_closes:
  assumes "drama_callback env cq w = (r, w')" "launched (new_events w w')"
  shows "closes (new_events w w') = 1 \<and> \<not> browser w' \<and> \<not> playwright w'"
  using assms gp_facts(3)
  by (auto simp: drama_callback_def chat_defs io_defs Let_def get_drama_details_run close_run
      after_fetch_def new_events_def gp_no_close close_events_simps
      split: if_splits option.splits)

lemma drama_command_no_html:
  assumes "drama_command env m w = (r, w')" "launched (new_events w w')"
    "timed_out (new_events w w') \<or> page_html env (search_url (query_of m)) = []"
  shows "\<not> parsed (new_events w w') \<and> issued (NoResults (query_of m)) (new_events w w')"
  using assms fetched_facts(1,2)[of env "search_url (query_of m)"]
  by (auto simp: drama_command_def chat_defs io_defs Let_def search_dramas_run close_run
      after_fetch_def new_events_def gp_not_parsed query_of_def sd_results_def
      split: if_splits)

text \<open>
  Claim C1.  An interaction (a search or a detail view) that launches the browser shuts
  it down exactly once before it ends, whichever calls raise, and ends with both handles
  cleared.  A later \<open>close()\<close> on the exception path finds nothing to shut down.  When the
  fetch of a search gives no HTML (the navigation raises, or the page is empty), no page
  is parsed and the notice that nothing was found is sent.
\<close>

theorem browser_session_closed_once:
  assumes "interact env i w = (r, w')" and "launched (new_events w w')"
  shows "closes (new_events w w') = 1 \<and> \<not> browser w' \<and> \<not> playwright w' \<and>
         (\<forall>m. i = Search m \<and>
              (timed_out (new_events w w') \<or> page_html env (search_url (query_of m)) = []) \<longrightarrow>
              \<not> parsed (new_events w w') \<and> issued (NoResults (query_of m)) (new_events w w'))"
proof (cases i)
  case (Search m)
  then have run: "drama_command env m w = (r, w')" using assms(1) by (simp add: interact_def)
  show ?thesis
    using drama_command_closes[OF run assms(2)] drama_command_no_html[OF run assms(2)] Search
    by blast
next
  case (Select cq)
  then have run: "drama_callback env cq w = (r, w')" using assms(1) by (simp add: interact_def)
  show ?thesis using drama_callback_closes[OF run assms(2)] Select by blast
qed

text \<open>
  The search whose navigation times out.
\<close>

lemma timed_out_search_run:
  "drama_command (failing_env 5 three_results_page) squid_message idle_world =
     (Inr (),
      idle_world\<lparr>next_message_id := 101, clock := 11,
        trace := [(ReplyText (Searching (str ''Squid Game'')), True),
                  (PlaywrightStart, True), (FirefoxLaunch, True), (NewContext, True),
                  (NewPage, True), (Goto (search_url (str ''Squid Game'')), False),
                  (PageClose, True), (ContextClose, True),
                  (BrowserClose, True), (PlaywrightStop, True),
                  (EditText 100 (NoResults (str ''Squid Game'')), True)]\<rparr>)"
  using squid_query
  by (simp add: run_defs query_of_def failing_env_def idle_world_def)

theorem browser_session_closed_once_witness:
  "closes (new_events idle_world
             (snd (interact (failing_env 5 three_results_page) (Search squid_message) idle_world))) = 1 \<and>
   \<not> parsed (new_events idle_world
             (snd (interact (failing_env 5 three_results_page) (Search squid_message) idle_world))) \<and>
   issued (NoResults (str ''Squid Game''))
     (new_events idle_world
        (snd (interact (failing_env 5 three_results_page) (Search squid_message) idle_world)))"
proof -
  let ?w' = "snd (interact (failing_env 5 three_results_page) (Search squid_message) idle_world)"
  have run: "interact (failing_env 5 three_results_page) (Search squid_message) idle_world = (Inr (), ?w')"
    by (simp add: interact_def timed_out_search_run)
  have evs: "new_events idle_world ?w' =
     [(ReplyText (Searching (str ''Squid Game'')), True),
      (PlaywrightStart, True), (FirefoxLaunch, True), (NewContext, True),
      (NewPage, True), (Goto (search_url (str ''Squid Game'')), False),
      (PageClose, True), (ContextClose, True),
      (BrowserClose, True), (PlaywrightStop, True),
      (EditText 100 (NoResults (str ''Squid Game'')), True)]"
    by (simp add: interact_def timed_out_search_run new_events_def) (simp add: idle_world_def)
  have l: "launched (new_events idle_world ?w')" by (simp add: evs)
  have t: "timed_out (new_events idle_world ?w')" by (simp add: evs)
  show ?thesis
    using browser_session_closed_once[OF run l] t squid_query(2) by simp
qed

section \<open>The order of the steps of an interaction\<close>

text \<open>
  The steps of a search in the order the source takes them: the progress notice, the
  fetch, the parse, the shutdown, the notice of the outcome.  Those of a detail view: the
  acknowledgement and the progress notice, the fetch, the parse, the delivery of the
  details, the shutdown, the notice of a failure.
\<close>

fun search_phase :: "call \<Rightarrow> nat" where
  "search_phase (ReplyText n) = 0"
| "search_phase (MakeSoup c) = 2"
| "search_phase BrowserClose = 3"
| "search_phase PlaywrightStop = 3"
| "search_phase (EditText m n) = 4"
| "search_phase AnswerCallback = 4"
| "search_phase (DeleteMessage m) = 4"
| "search_phase (SendPhoto p c b) = 4"
| "search_phase Sleep = 4"
| "search_phase c = 1"

fun notice_phase :: "notice \<Rightarrow> nat" where
  "notice_phase (Details c b) = 3"
| "notice_phase CouldNotFetch = 5"
| "notice_phase DetailsFailed = 5"
| "notice_phase n = 0"

fun detail_phase :: "call \<Rightarrow> nat" where
  "detail_phase AnswerCallback = 0"
| "detail_phase (ReplyText n) = 0"
| "detail_phase (EditText m n) = notice_phase n"
| "detail_phase (MakeSoup c) = 2"
| "detail_phase (DeleteMessage m) = 3"
| "detail_phase (SendPhoto p c b) = 3"
| "detail_phase Sleep = 3"
| "detail_phase BrowserClose = 4"
| "detail_phase PlaywrightStop = 4"
| "detail_phase c = 1"

definition phase :: "interaction \<Rightarrow> call \<Rightarrow> nat" where
  "phase i = (case i of Search m \<Rightarrow> search_phase | Select cq \<Rightarrow> detail_phase)"

lemma fetch_call_phase: "is_fetch_call url c \<Longrightarrow> search_phase c = 1 \<and> detail_phase c = 1"
  by (cases c) simp_all

lemma gp_phases:
  "map (search_phase \<circ> fst) (gp_events env url w) = replicate (length (gp_events env url w)) 1"
  "map (detail_phase \<circ> fst) (gp_events env url w) = replicate (length (gp_events env url w)) 1"
  using gp_facts(2)[of url env w] fetch_call_phase
  by (auto simp: list_all_iff map_replicate_const[symmetric])

lemma close_phases:
  "map (search_phase \<circ> fst) (close_events env w) = replicate (length (close_events env w)) 3"
  "map (detail_phase \<circ> fst) (close_events env w) = replicate (length (close_events env w)) 4"
  by (simp_all add: close_events_def)

lemma soup_phases:
  "map (search_phase \<circ> fst) (soup_events env url w) = replicate (length (soup_events env url w)) 2"
  "map (detail_phase \<circ> fst) (soup_events env url w) = replicate (length (soup_events env url w)) 2"
  by (simp_all add: soup_events_def)

lemma drama_command_order:
  "sorted (map (search_phase \<circ> fst) (new_events w (snd (drama_command env m w))))"
  by (auto simp: drama_command_def chat_defs io_defs Let_def search_dramas_run close_run
      after_fetch_def new_events_def gp_phases close_phases soup_phases close_events_simps(3)
      sorted_append
      split: if_splits)

lemma drama_callback_order:
  "sorted (map (detail_phase \<circ> fst) (new_events w (snd (drama_callback env cq w))))"
  by (auto simp: drama_callback_def chat_defs io_defs Let_def get_drama_details_run close_run
      after_fetch_def new_events_def gp_phases close_phases soup_phases close_events_simps(3)
      sorted_append
      split: if_splits option.splits)

text \<open>
  The order claim C5 states: every notice of an outcome before the shutdown.
\<close>

fun claimed_phase :: "call \<Rightarrow> nat" where
  "claimed_phase (ReplyText n) = 0"
| "claimed_phase AnswerCallback = 0"
| "claimed_phase (EditText m n) = (if n = Loading then 0 else 3)"
| "claimed_phase (DeleteMessage m) = 3"
| "claimed_phase (SendPhoto p c b) = 3"
| "claimed_phase Sleep = 3"
| "claimed_phase (MakeSoup c) = 2"
| "claimed_phase BrowserClose = 4"
| "claimed_phase PlaywrightStop = 4"
| "claimed_phase c = 1"

lemma found_search_run:
  "drama_command (calm_env three_results_page) squid_message idle_world =
     (Inr (),
      idle_world\<lparr>user_data := [7 \<mapsto> \<lparr>us_results = parse_search_results three_results_page,
                                      us_query = str ''Squid Game''\<rparr>],
        next_message_id := 101, clock := 13,
        trace := [(ReplyText (Searching (str ''Squid Game'')), True),
                  (PlaywrightStart, True), (FirefoxLaunch, True), (NewContext, True),
                  (NewPage, True), (Goto (search_url (str ''Squid Game'')), True),
                  (WaitNetworkIdle, True), (PageContent, True),
                  (PageClose, True), (ContextClose, True),
                  (MakeSoup (str ''<html>''), True),
                  (BrowserClose, True), (PlaywrightStop, True),
                  (EditText 100 (SearchResults (str ''Squid Game'')
                     (length (parse_search_results three_results_page))
                     (map result_button (parse_search_results three_results_page))), True)]\<rparr>)"
proof -
  have h: "str ''<html>'' \<noteq> []" by (simp add: str_def)
  show ?thesis
    using squid_query three_results_found h
    by (simp add: run_defs query_of_def calm_env_def idle_world_def squid_message_def)
qed

text \<open>
  Claim C5 says that the shutdown never comes before the outcome is shown.  In the
  search that finds three results the browser is shut down before the list of results is
  sent.
\<close>

theorem render_before_close_counterexample:
  "\<not> sorted (map (claimed_phase \<circ> fst)
       (new_events idle_world
          (snd (interact (calm_env three_results_page) (Search squid_message) idle_world))))"
  by (simp add: interact_def found_search_run new_events_def) (simp add: idle_world_def)

text \<open>
  Claim C5, amended.  In every interaction the fetch precedes the parse, and the parse
  precedes the shutdown and every notice of an outcome.  In a search the shutdown precedes
  the notice of the outcome (the results, nothing found, or the failure).  In a detail
  view the delivery of the details precedes the shutdown, and the notices that the
  details are unavailable or that the view failed follow it.
\<close>

theorem interaction_order:
  "sorted (map (phase i \<circ> fst) (new_events w (snd (interact env i w))))"
proof (cases i)
  case (Search m)
  then show ?thesis using drama_command_order[of w env m] by (simp add: phase_def interact_def)
next
  case (Select cq)
  then show ?thesis using drama_callback_order[of w env cq] by (simp add: phase_def interact_def)
qed

section \<open>The stored result set\<close>

definition squid_url :: pystr where
  "squid_url = str ''https://mydramalist.com/12345''"

definition squid_result :: search_result where
  "squid_result = \<lparr> sr_id = str ''12345'', sr_title = str ''Squid Game'', sr_url = squid_url,
                    sr_type_year = [] \<rparr>"

definition kingdom_result :: search_result where
  "kingdom_result = \<lparr> sr_id = str ''777'', sr_title = str ''Kingdom'',
                      sr_url = str ''https://mydramalist.com/777'', sr_type_year = [] \<rparr>"

definition squid_world :: world where
  "squid_world = idle_world\<lparr>user_data :=
     [7 \<mapsto> \<lparr>us_results = [squid_result], us_query = str ''Squid Game''\<rparr>]\<rparr>"

definition kingdom_world :: world where
  "kingdom_world = idle_world\<lparr>user_data :=
     [7 \<mapsto> \<lparr>us_results = [kingdom_result], us_query = str ''Kingdom''\<rparr>]\<rparr>"

lemma zero_results_run:
  "drama_command (calm_env (page_of_boxes [])) squid_message kingdom_world =
     (Inr (),
      kingdom_world\<lparr>next_message_id := 101, clock := 13,
        trace := [(ReplyText (Searching (str ''Squid Game'')), True),
                  (PlaywrightStart, True), (FirefoxLaunch, True), (NewContext, True),
                  (NewPage, True), (Goto (search_url (str ''Squid Game'')), True),
                  (WaitNetworkIdle, True), (PageContent, True),
                  (PageClose, True), (ContextClose, True),
                  (MakeSoup (str ''<html>''), True),
                  (BrowserClose, True), (PlaywrightStop, True),
                  (EditText 100 (NoResults (str ''Squid Game'')), True)]\<rparr>)"
  using squid_query zero_results html_nonempty
  by (simp add: run_defs query_of_def calm_env_def kingdom_world_def idle_world_def squid_message_def)

text \<open>
  Claim C9 says that every completed search overwrites the stored set, also one without
  results.  The user has the results of \<open>Kingdom\<close> stored and searches \<open>Squid Game\<close>; the
  page has no result; the search completes, and the stored set is still that of
  \<open>Kingdom\<close>.
\<close>

theorem zero_results_keep_prior_set:
  "fst (drama_command (calm_env (page_of_boxes [])) squid_message kingdom_world) = Inr () \<and>
   parse_search_results (soup_of (calm_env (page_of_boxes []))
      (page_html (calm_env (page_of_boxes [])) (search_url (query_of squid_message)))) = [] \<and>
   user_data (snd (drama_command (calm_env (page_of_boxes [])) squid_message kingdom_world))
     (msg_user squid_message) =
     Some \<lparr>us_results = [kingdom_result], us_query = str ''Kingdom''\<rparr>"
  by (simp add: zero_results_run zero_results) (simp add: kingdom_world_def calm_env_def squid_message_def zero_results)

text \<open>
  A command without a title, and one whose progress notice the platform rejects, start no
  search and leave \<open>user_data\<close> as it was.
\<close>

lemma search_not_started_keeps_data:
  assumes "length (py_split1 (msg_text m)) < 2 \<or>
           fst (reply_text env (Searching (query_of m)) w) = Inl e"
  shows "user_data (snd (drama_command env m w)) = user_data w"
  using assms
  by (auto simp: drama_command_def chat_defs io_defs Let_def query_of_def split: if_splits)

text \<open>
  Claim C9, amended.  The search of an interaction is the run of \<open>search_dramas\<close> that
  follows the progress notice.  When it returns results, the handler stores them with the
  query as the user's set, in place of the set the user had, and changes the set of no
  other user; this holds whether or not the list then reaches the user.  When it returns
  no result (the page has none, or the fetch failed), \<open>user_data\<close> is left as it was, so
  the prior set survives.  The results returned are those of the parsed page.
\<close>

theorem search_stores_only_found_results:
  assumes "2 \<le> length (py_split1 (msg_text m))"
    and "reply_text env (Searching (query_of m)) w = (Inr i, w1)"
    and "search_dramas env (query_of m) w1 = (Inr rs, w2)"
  shows "user_data (snd (drama_command env m w)) =
           (if rs = [] then user_data w
            else (user_data w)(msg_user m \<mapsto> \<lparr>us_results = rs, us_query = query_of m\<rparr>)) \<and>
         (rs = [] \<or>
          rs = parse_search_results (soup_of env (page_html env (search_url (query_of m)))))"
proof -
  let ?q = "py_strip (py_split1 (msg_text m) ! 1)"
  have reply: "reply_text env (Searching ?q) w = (Inr i, w1)"
    using assms(2) by (simp add: query_of_def)
  have search: "search_dramas env ?q w1 = (Inr rs, w2)"
    using assms(3) by (simp add: query_of_def)
  have u1: "user_data w1 = user_data w"
    using reply by (auto simp: chat_defs io_defs Let_def split: if_splits)
  have rs: "rs = sd_results env ?q w1" and w2: "w2 = after_fetch env (search_url ?q) w1 (soup_events env (search_url ?q) w1)"
    using search by (simp_all add: search_dramas_run)
  have u2: "user_data w2 = user_data w"
    using u1 w2 by (simp add: after_fetch_def)
  have stored: "user_data (snd (drama_command env m w)) =
           (if rs = [] then user_data w
            else (user_data w)(msg_user m \<mapsto> \<lparr>us_results = rs, us_query = ?q\<rparr>))"
    using assms(1) u2 reply search
    by (simp add: drama_command_def Let_def seq_def try_except_def close_run
        edit_text_def get_def external_def modify_def)
  have found: "rs = [] \<or> rs = parse_search_results (soup_of env (page_html env (search_url ?q)))"
    using rs by (simp add: sd_results_def)
  show ?thesis using stored found by (simp add: query_of_def)
qed

text \<open>
  The user who has the results of \<open>Kingdom\<close> stored searches \<open>Squid Game\<close>, which finds
  three results: the set of \<open>Kingdom\<close> is replaced.
\<close>

theorem search_stores_only_found_results_witness:
  "user_data kingdom_world 7 = Some \<lparr>us_results = [kingdom_result], us_query = str ''Kingdom''\<rparr> \<and>
   user_data (snd (drama_command (calm_env three_results_page) squid_message kingdom_world)) 7 =
     Some \<lparr>us_results = parse_search_results three_results_page, us_query = str ''Squid Game''\<rparr>"
proof -
  let ?E = "calm_env three_results_page"
  let ?w1 = "snd (reply_text ?E (Searching (query_of squid_message)) kingdom_world)"
  let ?w2 = "snd (search_dramas ?E (query_of squid_message) ?w1)"
  have len: "2 \<le> length (py_split1 (msg_text squid_message))"
    by (simp add: squid_query(1))
  have "fst (reply_text ?E (Searching (query_of squid_message)) kingdom_world) = Inr 100"
    by (simp add: chat_defs io_defs calm_env_def kingdom_world_def idle_world_def)
  then have reply: "reply_text ?E (Searching (query_of squid_message)) kingdom_world = (Inr 100, ?w1)"
    by (metis prod.collapse)
  have "fst (search_dramas ?E (query_of squid_message) ?w1) = Inr (parse_search_results three_results_page)"
    using html_nonempty
    by (simp add: run_defs calm_env_def kingdom_world_def idle_world_def)
  then have search: "search_dramas ?E (query_of squid_message) ?w1 =
      (Inr (parse_search_results three_results_page), ?w2)"
    by (metis prod.collapse)
  have prior: "user_data kingdom_world 7 = Some \<lparr>us_results = [kingdom_result], us_query = str ''Kingdom''\<rparr>"
    by (simp add: kingdom_world_def idle_world_def)
  have user: "msg_user squid_message = 7" by (simp add: squid_message_def)
  from search_stores_only_found_results[OF len reply search] three_results_found
  have "user_data (snd (drama_command ?E squid_message kingdom_world)) =
          (user_data kingdom_world)(msg_user squid_message \<mapsto>
             \<lparr>us_results = parse_search_results three_results_page,
              us_query = query_of squid_message\<rparr>)"
    by simp
  then have "user_data (snd (drama_command ?E squid_message kingdom_world)) 7 =
      Some \<lparr>us_results = parse_search_results three_results_page, us_query = str ''Squid Game''\<rparr>"
    by (simp only: user squid_query(2) fun_upd_same)
  then show ?thesis using prior by simp
qed

section \<open>The detail page: a rating container without its value\<close>

definition film_title_tag :: node where
  "film_title_tag = Tag (str ''h1'') [str ''film-title''] [] [Text (str ''Squid Game'')]"

definition poster_tag :: node where
  "poster_tag = Tag (str ''img'') [str ''img-responsive'']
     [(str ''alt'', str ''Squid Game Poster''), (str ''src'', str ''//i.mydramalist.com/p.jpg'')] []"

definition rating_without_value_page :: node where
  "rating_without_value_page =
     page_of_boxes [film_title_tag, Tag (str ''div'') [str ''col-film-rating''] [] []]"

definition no_rating_page :: node where
  "no_rating_page = page_of_boxes [film_title_tag]"

definition poster_page :: node where
  "poster_page =
     page_of_boxes [film_title_tag, poster_tag,
       Tag (str ''div'') [str ''col-film-rating''] [] [Tag (str ''div'') [str ''box''] [] [Text (str ''8.4'')]]]"

definition na :: pystr where
  "na = str ''N/A''"

definition poster_details :: details where
  "poster_details =
     \<lparr> d_title = str ''Squid Game'', d_image_url = str ''https://i.mydramalist.com/p.jpg'',
       d_rating = str ''8.4'', d_country = na, d_type = na, d_episodes = na, d_aired = na,
       d_duration = na, d_genres = na, d_synopsis = [], d_url = squid_url \<rparr>"

lemmas detail_defs = extract_details_def detail_title_def detail_image_url_def is_poster_def
  detail_rating_def detail_info_def detail_synopsis_def detail_genres_def is_synopsis_def
  info_get_def find_first_def find_all_def get_attr_default_def text_of_def py_startswith_def
  py_lower_def py_strip_def py_lstrip_def py_rstrip_def py_isspace_def page_of_boxes_def
  film_title_tag_def poster_tag_def

lemma no_rating_details:
  "extract_details no_rating_page u =
     Inr \<lparr> d_title = str ''Squid Game'', d_image_url = [], d_rating = na, d_country = na,
           d_type = na, d_episodes = na, d_aired = na, d_duration = na, d_genres = na,
           d_synopsis = [], d_url = u \<rparr>"
  by (simp add: no_rating_page_def detail_defs na_def str_def)

lemma poster_page_details: "extract_details poster_page squid_url = Inr poster_details"
  by (simp add: poster_page_def poster_details_def detail_defs na_def str_def)

text \<open>
  Only the rating can make the extraction raise.
\<close>

lemma details_fail_only_on_rating:
  "extract_details soup u = Inl e \<Longrightarrow> detail_rating soup = Inl e \<and> e = AttributeError"
  by (auto simp: extract_details_def Let_def detail_rating_def split: sum.splits option.splits)

text \<open>
  Claim C4.  The claim holds for a page without rating container (the rating is
  \<open>N/A\<close> and the title is extracted), and fails for a page whose rating container has
  no inner value element: the extraction raises, and \<open>get_drama_details\<close> returns
  \<open>None\<close> instead of the record.
\<close>

theorem rating_without_value_fails:
  "extract_details rating_without_value_page u = Inl AttributeError \<and>
   fst (get_drama_details (calm_env rating_without_value_page) u idle_world) = Inr None \<and>
   (\<exists>d. extract_details no_rating_page u = Inr d \<and> d_rating d = str ''N/A'' \<and>
        d_title d = str ''Squid Game'')"
proof -
  have a: "extract_details rating_without_value_page u = Inl AttributeError"
    by (simp add: rating_without_value_page_def detail_defs str_def)
  have h: "str ''<html>'' \<noteq> []" by (simp add: str_def)
  have "gd_details (calm_env rating_without_value_page) u idle_world = None"
    using a by (simp add: gd_details_def calm_env_def)
  then have b: "fst (get_drama_details (calm_env rating_without_value_page) u idle_world) = Inr None"
    by (simp add: get_drama_details_run)
  show ?thesis using a b no_rating_details[of u] by (simp add: na_def)
qed

section \<open>A rejected photo\<close>

definition squid_press :: callback_query where
  "squid_press = \<lparr> cq_data = str ''mdl_12345'', cq_user = 7, cq_message = 100 \<rparr>"

lemma squid_press_id: "py_replace (str ''mdl_'') [] (str ''mdl_12345'') = str ''12345''"
  by (simp add: py_replace.simps str_def)

lemma squid_url_nonempty: "squid_url \<noteq> []"
  by (simp add: squid_url_def str_def)

lemma poster_image: "d_image_url poster_details \<noteq> []"
  by (simp add: poster_details_def str_def)

text \<open>
  The message is deleted before the photo is sent, so the text the handler falls back to
  is an edit of a deleted message: whenever the photo is rejected the handler ends with the
  platform's error, and neither the details nor the notice of the failure reach the user.
\<close>

lemma photo_rejected_never_recovers:
  assumes "drama_callback env cq w = (r, w')" "(SendPhoto p c b, False) \<in> set (new_events w w')"
  shows "r = Inl TelegramError \<and>
         (EditText m (Details c' b'), True) \<notin> set (new_events w w') \<and>
         (EditText m DetailsFailed, True) \<notin> set (new_events w w')"
proof -
  have g: "(SendPhoto p c b, False) \<notin> set (gp_events env url w0)" for url w0
    using gp_facts(2)[of url env w0] by (auto simp: list_all_iff)
  have g2: "(EditText m n, True) \<notin> set (gp_events env url w0)" for url w0 n
    using gp_facts(2)[of url env w0] by (auto simp: list_all_iff)
  show ?thesis
    using assms
    by (auto simp: drama_callback_def chat_defs io_defs Let_def get_drama_details_run close_run
        after_fetch_def new_events_def g g2 soup_events_def close_events_def
        split: if_splits option.splits)
qed

text \<open>
  Claim C6.  The detail view of \<open>Squid Game\<close>, whose page has a poster, with the photo
  rejected: the edit with the text of the details is rejected, the browser is shut down,
  the edit with the notice of the failure is rejected, and the handler raises.
\<close>

theorem photo_rejected_run:
  "drama_callback (failing_env 12 poster_page) squid_press squid_world =
     (Inl TelegramError,
      squid_world\<lparr>deleted := {100}, clock := 17,
        trace := [(AnswerCallback, True), (EditText 100 Loading, True),
                  (PlaywrightStart, True), (FirefoxLaunch, True), (NewContext, True),
                  (NewPage, True), (Goto squid_url, True), (WaitNetworkIdle, True),
                  (PageContent, True), (PageClose, True), (ContextClose, True),
                  (MakeSoup (str ''<html>''), True),
                  (DeleteMessage 100, True),
                  (SendPhoto (d_image_url poster_details) (caption_of poster_details)
                     (site_button poster_details), False),
                  (EditText 100 (Details (caption_of poster_details) (site_button poster_details)), False),
                  (BrowserClose, True), (PlaywrightStop, True),
                  (EditText 100 DetailsFailed, False)]\<rparr>)"
  using squid_press_id squid_url_nonempty poster_image html_nonempty poster_page_details
  by (simp add: run_defs failing_env_def squid_world_def idle_world_def squid_press_def
      squid_result_def)

section \<open>The identifier of a pressed button\<close>

text \<open>
  An identifier that does not contain the tag \<open>mdl_\<close> comes back from the callback
  data as it was.
\<close>

lemma id_round_trip:
  "\<not> py_in (str ''mdl_'') i \<Longrightarrow> py_replace (str ''mdl_'') [] (str ''mdl_'' @ i) = i"
proof -
  assume a: "\<not> py_in (str ''mdl_'') i"
  have ne: "str ''mdl_'' \<noteq> []" by (simp add: str_def)
  show ?thesis using py_replace_prefix[OF ne, of "[]" i] py_replace_absent[OF ne a] by simp
qed

definition tagged_id_page :: node where
  "tagged_id_page = page_of_boxes [titled_box (str ''mdl_1'') (str ''T'')]"

definition tagged_result :: search_result where
  "tagged_result = \<lparr> sr_id = str ''mdl_1'', sr_title = str ''T'',
                     sr_url = str ''https://mydramalist.com/mdl_1'', sr_type_year = [] \<rparr>"

lemma tagged_id_results: "parse_search_results tagged_id_page = [tagged_result]"
  by (simp add: parse_search_results_def scan_boxes_map_filter drama_boxes_def find_all_def
      tagged_id_page_def page_of_boxes_def is_drama_box_titled descendants_titled
      box_result_titled tagged_result_def)
     (simp add: py_replace.simps py_strip_def py_lstrip_def py_rstrip_def py_isspace_def
      BASE_URL_def str_def)

text \<open>
  Claim C8.  The container \<open>mdl-mdl_1\<close> gives the result with the identifier
  \<open>mdl_1\<close>; its button carries \<open>mdl_mdl_1\<close>; the handler strips every \<open>mdl_\<close> and looks
  \<open>1\<close> up, which is not in the stored results, although the result is.
\<close>

theorem tagged_id_is_not_found:
  "parse_search_results tagged_id_page = [tagged_result] \<and>
   result_button tagged_result = CallbackButton (str ''T'') (str ''mdl_mdl_1'') \<and>
   py_replace (str ''mdl_'') [] (str ''mdl_mdl_1'') = str ''1'' \<and>
   lookup_url [tagged_result] (py_replace (str ''mdl_'') [] (str ''mdl_mdl_1'')) = None \<and>
   lookup_url [tagged_result] (sr_id tagged_result) = Some (sr_url tagged_result)"
  by (simp add: tagged_id_results)
     (simp add: result_button_def tagged_result_def py_replace.simps str_def)

section \<open>Further properties of the handlers and of the extraction\<close>

text \<open>
  A \<open>/drama\<close> command without a title is answered with the usage notice and nothing
  else: no call is made on the browser, and nothing is stored.
\<close>

theorem missing_title_makes_no_fetch:
  assumes "length (py_split1 (msg_text m)) < 2"
  shows "new_events w (snd (drama_command env m w)) = [(ReplyText Usage, \<not> fails env (clock w))] \<and>
         user_data (snd (drama_command env m w)) = user_data w \<and>
         browser (snd (drama_command env m w)) = browser w"
  using assms by (simp add: drama_command_def chat_defs io_defs new_events_def Let_def)

definition bare_command :: message where
  "bare_command = \<lparr> msg_text = str ''/drama   '', msg_user = 7 \<rparr>"

theorem missing_title_makes_no_fetch_witness:
  "new_events idle_world (snd (drama_command (calm_env three_results_page) bare_command idle_world))
     = [(ReplyText Usage, True)]"
proof -
  have "length (py_split1 (msg_text bare_command)) < 2"
    by (simp add: bare_command_def py_split1_def py_isspace_def str_def Let_def)
  from missing_title_makes_no_fetch[OF this, of idle_world "calm_env three_results_page"]
  show ?thesis by (simp add: calm_env_def)
qed

text \<open>
  The press of a button whose identifier is not among the user's stored results is
  answered with the notice that the drama was not found: no page is fetched.
\<close>

theorem unknown_selection_makes_no_fetch:
  assumes "user_data w (cq_user cq) = Some s"
    and "lookup_url (us_results s) (py_replace (str ''mdl_'') [] (cq_data cq)) = None"
  shows "new_events w (snd (drama_callback env cq w)) =
           (if fails env (clock w) then [(AnswerCallback, False)]
            else [(AnswerCallback, True),
                  (EditText (cq_message cq) DramaNotFound,
                   \<not> fails env (Suc (clock w)) \<and> cq_message cq \<notin> deleted w)]) \<and>
         user_data (snd (drama_callback env cq w)) = user_data w \<and>
         browser (snd (drama_callback env cq w)) = browser w"
  using assms by (simp add: drama_callback_def chat_defs io_defs new_events_def Let_def)

definition unknown_press :: callback_query where
  "unknown_press = \<lparr> cq_data = str ''mdl_99999'', cq_user = 7, cq_message = 100 \<rparr>"

theorem unknown_selection_makes_no_fetch_witness:
  "new_events squid_world (snd (drama_callback (calm_env poster_page) unknown_press squid_world))
     = [(AnswerCallback, True), (EditText 100 DramaNotFound, True)]"
proof -
  have u: "user_data squid_world (cq_user unknown_press) =
             Some \<lparr>us_results = [squid_result], us_query = str ''Squid Game''\<rparr>"
    by (simp add: squid_world_def idle_world_def unknown_press_def)
  have l: "lookup_url (us_results \<lparr>us_results = [squid_result], us_query = str ''Squid Game''\<rparr>)
             (py_replace (str ''mdl_'') [] (cq_data unknown_press)) = None"
    by (simp add: unknown_press_def squid_result_def py_replace.simps str_def)
  from unknown_selection_makes_no_fetch[OF u l, of "calm_env poster_page"]
  show ?thesis by (simp add: calm_env_def unknown_press_def squid_world_def idle_world_def)
qed

text \<open>
  The synopsis of a record is the text of the synopsis container without its links, cut
  to 500 code points and followed by three dots when it is longer.
\<close>

theorem synopsis_is_truncated:
  assumes "extract_details soup u = Inr d"
  shows "d_synopsis d = (if length (detail_synopsis soup) > 500
                         then take 500 (detail_synopsis soup) @ str ''...''
                         else detail_synopsis soup) \<and>
         length (d_synopsis d) = min (length (detail_synopsis soup)) 500 +
                                 (if length (detail_synopsis soup) > 500 then 3 else 0)"
  using assms
  by (auto simp: extract_details_def Let_def str_def split: sum.splits)

definition long_synopsis_page :: node where
  "long_synopsis_page =
     page_of_boxes [Tag (str ''div'') [str ''show-synopsis''] []
                      [Text (replicate 501 120), Tag (str ''a'') [] [] [Text (str ''Edit'')]]]"

lemma strip_replicate: "\<not> py_isspace c \<Longrightarrow> py_strip (replicate n c) = replicate n c"
  by (cases n) (simp_all add: py_strip_def py_lstrip_def py_rstrip_def replicate_append_same[symmetric]
      del: replicate_Suc)

lemma long_synopsis: "detail_synopsis long_synopsis_page = replicate 501 120"
proof -
  have "\<not> py_isspace 120" by (simp add: py_isspace_def)
  from strip_replicate[OF this, of 501] show ?thesis
    by (simp add: long_synopsis_page_def page_of_boxes_def detail_synopsis_def is_synopsis_def
        find_first_def find_all_def get_text_strip_def str_def)
qed

theorem synopsis_is_truncated_witness:
  "\<exists>d. extract_details long_synopsis_page u = Inr d \<and>
       d_synopsis d = replicate 500 120 @ str ''...'' \<and> length (d_synopsis d) = 503"
proof -
  have "detail_rating long_synopsis_page = Inr (str ''N/A'')"
    by (simp add: long_synopsis_page_def page_of_boxes_def detail_rating_def find_first_def
        find_all_def str_def)
  then obtain d where d: "extract_details long_synopsis_page u = Inr d"
    by (simp add: extract_details_def Let_def)
  from synopsis_is_truncated[OF d] show ?thesis using d by (simp add: long_synopsis str_def)
qed

end
